theory Spec2Isabelle
  imports Main "HOL-Library.Word"
begin

section \<open>The apply pipeline of \<^verbatim>\<open>server/etcdserver/uber_applier.go\<close>\<close>

text \<open>
  The file defines the \<^verbatim>\<open>uberApplier\<close>: it builds the chain of appliers
  (\<^verbatim>\<open>newApplierV3\<close>, \<^verbatim>\<open>RestoreAlarms\<close>), routes one committed
  \<^verbatim>\<open>InternalRaftRequest\<close> to the internal applier or to the chain
  (\<^verbatim>\<open>dispatch\<close>, called through \<^verbatim>\<open>Apply\<close>) and handles alarm requests
  (\<^verbatim>\<open>Alarm\<close>).

  What the code does beyond computing values is kept in the model: every function returns
  the new \<^verbatim>\<open>uberApplier\<close>, the new state of the server (a type variable \<open>'w\<close>: store,
  alarm store, auth store, ...) and the list of calls it made to code outside the file, in the
  order they are made.
\<close>

subsection \<open>Messages\<close>

text \<open>
  \<^verbatim>\<open>pb.AlarmType\<close>, with the values the protocol names. The file passes only the
  named values \<^verbatim>\<open>NOSPACE\<close> and \<^verbatim>\<open>CORRUPT\<close> to the alarm store and never
  inspects the alarm type of a request.
\<close>

datatype AlarmType = AlarmType_NONE | AlarmType_NOSPACE | AlarmType_CORRUPT

text \<open>
  \<^verbatim>\<open>pb.AlarmRequest_AlarmAction\<close> is an \<^verbatim>\<open>int32\<close>: the protocol names three
  values, and a request can carry any other. The handler compares the action with two of the
  named values, so the type is the machine integer and the named values are constants of it.
\<close>

type_synonym AlarmAction = "32 word"

definition AlarmRequest_GET :: AlarmAction where
  "AlarmRequest_GET = 0"

definition AlarmRequest_ACTIVATE :: AlarmAction where
  "AlarmRequest_ACTIVATE = 1"

definition AlarmRequest_DEACTIVATE :: AlarmAction where
  "AlarmRequest_DEACTIVATE = 2"

text \<open>
  \<^verbatim>\<open>pb.AlarmRequest\<close>. The Go field \<^verbatim>\<open>Alarm\<close> (the alarm's type) is
  \<open>AlarmKind\<close> here, the name \<open>Alarm\<close> being the handler's.
\<close>

record AlarmRequest =
  Action :: AlarmAction
  MemberID :: "64 word"
  AlarmKind :: AlarmType

text \<open>\<^verbatim>\<open>pb.AlarmMember\<close>: a member and the alarm it raised.\<close>

type_synonym AlarmMember = "64 word \<times> AlarmType"

text \<open>
  \<^verbatim>\<open>pb.InternalRaftRequest\<close>, with the fields \<^verbatim>\<open>dispatch\<close> reads, in the order it
  reads them. Each is a pointer in Go: \<open>None\<close> is \<^verbatim>\<open>nil\<close>. Nothing in the type makes
  exactly one of them set. The request messages other than the alarm request are not
  inspected by this file: their type is the variable \<open>'p\<close>. The fields \<^verbatim>\<open>Range\<close> and
  \<^verbatim>\<open>Alarm\<close> carry a suffix, their names being taken.
\<close>

record 'p InternalRaftRequest =
  ClusterVersionSet :: "'p option"
  ClusterMemberAttrSet :: "'p option"
  DowngradeInfoSet :: "'p option"
  Range_f :: "'p option"
  Put :: "'p option"
  DeleteRange :: "'p option"
  Txn :: "'p option"
  Compaction :: "'p option"
  LeaseGrant :: "'p option"
  LeaseRevoke :: "'p option"
  LeaseCheckpoint :: "'p option"
  Alarm_f :: "AlarmRequest option"
  Authenticate :: "'p option"
  AuthEnable :: "'p option"
  AuthDisable :: "'p option"
  AuthStatus :: "'p option"
  AuthUserAdd :: "'p option"
  AuthUserDelete :: "'p option"
  AuthUserChangePassword :: "'p option"
  AuthUserGrantRole :: "'p option"
  AuthUserGet :: "'p option"
  AuthUserRevokeRole :: "'p option"
  AuthRoleAdd :: "'p option"
  AuthRoleGrantPermission :: "'p option"
  AuthRoleGet :: "'p option"
  AuthRoleRevokePermission :: "'p option"
  AuthRoleDelete :: "'p option"
  AuthUserList :: "'p option"
  AuthRoleList :: "'p option"

subsection \<open>Errors and results\<close>

text \<open>
  Go errors are compared by identity; \<^verbatim>\<open>mvcc.ErrCompacted\<close> is the one
  \<^verbatim>\<open>dispatch\<close> compares with. Every other error is \<open>Err\<close> with its message.
\<close>

datatype error = ErrCompacted | Err string

text \<open>
  \<^verbatim>\<open>applyResult\<close>, with the four fields the file assigns. \<open>'r\<close> is the type
  of responses, \<open>'c\<close> of the channel that signals the end of a physical compaction,
  \<open>'t\<close> of traces.
\<close>

record ('r, 'c, 't) applyResult =
  resp :: "'r option"
  err :: "error option"
  physc :: "'c option"
  trace :: "'t option"

text \<open>What a method of the chain returns; the methods with fewer results leave the rest unused.\<close>

record ('r, 'c, 't) reply =
  r_resp :: "'r option"
  r_physc :: "'c option"
  r_trace :: "'t option"
  r_err :: "error option"

subsection \<open>Appliers\<close>

text \<open>
  Modelled from the spec: the appliers that \<^verbatim>\<open>newApplierV3Backend\<close>,
  \<^verbatim>\<open>newQuotaApplierV3\<close>, \<^verbatim>\<open>newAuthApplierV3\<close>, \<^verbatim>\<open>newApplierV3Capped\<close> and
  \<^verbatim>\<open>newApplierV3Corrupt\<close> build are declared outside this file. Following section 4.3,
  each decorator is constructed wrapping exactly one inner applier, and the backend is the
  leaf. A chain is the term of the constructors that built it, outermost first.
\<close>

datatype applierV3 =
    applierV3backend
  | quotaApplierV3 applierV3
  | authApplierV3 applierV3
  | applierV3Capped applierV3
  | applierV3Corrupt applierV3

text \<open>The applier of internal requests: a backend of its own, behind a narrower interface.\<close>

datatype applierV3Internal = applierV3backend_internal

text \<open>
  The calls \<^verbatim>\<open>dispatch\<close> and \<^verbatim>\<open>Alarm\<close> make on the chain (the methods of the
  interface \<^verbatim>\<open>applierV3\<close>, with the request they are given; the context and the
  \<^verbatim>\<open>nil\<close> transaction are left out), and on the internal applier.
\<close>

datatype 'p call =
    Call_Range 'p
  | Call_Put 'p
  | Call_DeleteRange 'p
  | Call_Txn 'p
  | Call_Compaction 'p
  | Call_LeaseGrant 'p
  | Call_LeaseRevoke 'p
  | Call_LeaseCheckpoint 'p
  | Call_Alarm AlarmRequest
  | Call_Authenticate 'p
  | Call_AuthEnable
  | Call_AuthDisable
  | Call_AuthStatus
  | Call_UserAdd 'p
  | Call_UserDelete 'p
  | Call_UserChangePassword 'p
  | Call_UserGrantRole 'p
  | Call_UserGet 'p
  | Call_UserRevokeRole 'p
  | Call_RoleAdd 'p
  | Call_RoleGrantPermission 'p
  | Call_RoleGet 'p
  | Call_RoleRevokePermission 'p
  | Call_RoleDelete 'p
  | Call_UserList 'p
  | Call_RoleList 'p

datatype 'p icall =
    ICall_ClusterVersionSet 'p
  | ICall_ClusterMemberAttrSet 'p
  | ICall_DowngradeInfoSet 'p

subsection \<open>Effects\<close>

text \<open>
  The calls that leave the file, as events: a method of the chain (with the chain it is
  called on), a method of the internal applier (with \<^verbatim>\<open>shouldApplyV3\<close>),
  \<^verbatim>\<open>alarmStore.Get\<close>, the observation of the metric \<^verbatim>\<open>applySec\<close> (with its
  three labels; the duration is not modelled), the two warnings, and the logger's
  \<^verbatim>\<open>Panic\<close>.
\<close>

datatype 'p event =
    CallChain applierV3 "'p call"
  | CallInternal applierV3Internal "'p icall" bool
  | AlarmStoreGet AlarmType
  | Observe string string string
  | WarnOfExpensiveRequest
  | WarnOfFailedRequest
  | LogPanic

text \<open>
  \<^verbatim>\<open>dispatch\<close> returns a pointer to an \<^verbatim>\<open>applyResult\<close>, which may be
  \<^verbatim>\<open>nil\<close> (\<open>Returned None\<close>), or panics.
\<close>

datatype ('r, 'c, 't) outcome =
    Returned "('r, 'c, 't) applyResult option"
  | Panicked

text \<open>The \<^verbatim>\<open>uberApplier\<close>: the three fields that hold appliers.\<close>

record uberApplier =
  applyV3 :: applierV3
  applyV3base :: applierV3
  applyV3Internal :: applierV3Internal

text \<open>What one run of \<^verbatim>\<open>dispatch\<close> leaves behind.\<close>

record ('p, 'r, 'c, 't, 'w) run =
  outcome :: "('r, 'c, 't) outcome"
  ua :: uberApplier
  world :: 'w
  events :: "'p event list"

text \<open>
  The code outside the file, as parameters: the label \<^verbatim>\<open>v3Version\<close>, what a method
  of a chain does to the server and returns (\<open>invoke\<close>), what a method of the internal
  applier does (\<open>invokeInternal\<close>), what the alarm store holds for an alarm type
  (\<open>alarmStore_Get\<close>), and the chain's \<^verbatim>\<open>WrapApply\<close>, which is given the request,
  the flag and the function to apply.
\<close>

record ('p, 'r, 'c, 't, 'w) deps =
  v3Version :: string
  invoke :: "applierV3 \<Rightarrow> 'p call \<Rightarrow> 'w \<Rightarrow> ('r, 'c, 't) reply \<times> 'w"
  invokeInternal :: "applierV3Internal \<Rightarrow> 'p icall \<Rightarrow> bool \<Rightarrow> 'w \<Rightarrow> 'w"
  alarmStore_Get :: "'w \<Rightarrow> AlarmType \<Rightarrow> AlarmMember list"
  WrapApply :: "applierV3 \<Rightarrow> 'p InternalRaftRequest \<Rightarrow> bool
    \<Rightarrow> ('p InternalRaftRequest \<Rightarrow> bool \<Rightarrow> 'w \<Rightarrow> ('p, 'r, 'c, 't, 'w) run)
    \<Rightarrow> 'w \<Rightarrow> ('p, 'r, 'c, 't, 'w) run"

subsection \<open>Building the chain\<close>

definition newApplierV3Backend :: applierV3 where
  "newApplierV3Backend = applierV3backend"

definition newApplierV3Internal :: applierV3Internal where
  "newApplierV3Internal = applierV3backend_internal"

text \<open>
  Modelled from the spec: the four constructors of decorators, declared outside this file;
  each wraps the applier it is given (the stores and the lessor they also take belong
  to the server).
\<close>

definition newQuotaApplierV3 :: "applierV3 \<Rightarrow> applierV3" where
  "newQuotaApplierV3 app = quotaApplierV3 app"

definition newAuthApplierV3 :: "applierV3 \<Rightarrow> applierV3" where
  "newAuthApplierV3 base = authApplierV3 base"

definition newApplierV3Capped :: "applierV3 \<Rightarrow> applierV3" where
  "newApplierV3Capped base = applierV3Capped base"

definition newApplierV3Corrupt :: "applierV3 \<Rightarrow> applierV3" where
  "newApplierV3Corrupt a = applierV3Corrupt a"

definition newApplierV3 :: applierV3 where
  "newApplierV3 = newAuthApplierV3 (newQuotaApplierV3 newApplierV3Backend)"

definition RestoreAlarms ::
  "('p, 'r, 'c, 't, 'w) deps \<Rightarrow> uberApplier \<Rightarrow> 'w \<Rightarrow> uberApplier \<times> 'p event list" where
  "RestoreAlarms d a w =
     (let noSpaceAlarms = (length (alarmStore_Get d w AlarmType_NOSPACE) > 0);
          corruptAlarms = (length (alarmStore_Get d w AlarmType_CORRUPT) > 0);
          a1 = a\<lparr>applyV3 := applyV3base a\<rparr>;
          a2 = (if noSpaceAlarms then a1\<lparr>applyV3 := newApplierV3Capped (applyV3 a1)\<rparr> else a1);
          a3 = (if corruptAlarms then a2\<lparr>applyV3 := newApplierV3Corrupt (applyV3 a2)\<rparr> else a2)
      in (a3, [AlarmStoreGet AlarmType_NOSPACE, AlarmStoreGet AlarmType_CORRUPT]))"

definition newUberApplier ::
  "('p, 'r, 'c, 't, 'w) deps \<Rightarrow> 'w \<Rightarrow> uberApplier \<times> 'p event list" where
  "newUberApplier d w =
     (let base = newApplierV3;
          ua0 = \<lparr>applyV3 = base, applyV3base = base,
                 applyV3Internal = newApplierV3Internal\<rparr>
      in RestoreAlarms d ua0 w)"

subsection \<open>The alarm handler\<close>

text \<open>The result is the response, the error, the applier, the server and the events.\<close>

definition Alarm ::
  "('p, 'r, 'c, 't, 'w) deps \<Rightarrow> uberApplier \<Rightarrow> AlarmRequest \<Rightarrow> 'w
     \<Rightarrow> 'r option \<times> error option \<times> uberApplier \<times> 'w \<times> 'p event list" where
  "Alarm d a ar w =
     (let (ret, w') = invoke d (applyV3 a) (Call_Alarm ar) w;
          evs = [CallChain (applyV3 a) (Call_Alarm ar)]
      in if Action ar = AlarmRequest_ACTIVATE \<or> Action ar = AlarmRequest_DEACTIVATE
         then (let (a', evs') = RestoreAlarms d a w'
               in (r_resp ret, r_err ret, a', w', evs @ evs'))
         else (r_resp ret, r_err ret, a, w', evs))"

subsection \<open>Dispatch\<close>

definition FormatBool :: "bool \<Rightarrow> string" where
  "FormatBool b = (if b then ''true'' else ''false'')"

text \<open>
  The deferred function of \<^verbatim>\<open>dispatch\<close>, which runs when it returns and when it
  panics, on the operation name and the result as they are then.
\<close>

definition deferred ::
  "('p, 'r, 'c, 't, 'w) deps \<Rightarrow> string \<Rightarrow> ('r, 'c, 't) applyResult \<Rightarrow> 'p event list" where
  "deferred d op ar =
     (let success = (err ar = None \<or> err ar = Some ErrCompacted)
      in [Observe (v3Version d) op (FormatBool success), WarnOfExpensiveRequest]
         @ (if \<not> success then [WarnOfFailedRequest] else []))"

text \<open>\<^verbatim>\<open>&applyResult{}\<close>\<close>

definition applyResult_zero :: "('r, 'c, 't) applyResult" where
  "applyResult_zero = \<lparr>resp = None, err = None, physc = None, trace = None\<rparr>"

text \<open>The three shapes of assignment to the result's fields.\<close>

definition resp_err ::
  "('r, 'c, 't) applyResult \<Rightarrow> ('r, 'c, 't) reply \<Rightarrow> ('r, 'c, 't) applyResult" where
  "resp_err ar ret = ar\<lparr>resp := r_resp ret, err := r_err ret\<rparr>"

definition resp_trace_err ::
  "('r, 'c, 't) applyResult \<Rightarrow> ('r, 'c, 't) reply \<Rightarrow> ('r, 'c, 't) applyResult" where
  "resp_trace_err ar ret = ar\<lparr>resp := r_resp ret, trace := r_trace ret, err := r_err ret\<rparr>"

definition resp_physc_trace_err ::
  "('r, 'c, 't) applyResult \<Rightarrow> ('r, 'c, 't) reply \<Rightarrow> ('r, 'c, 't) applyResult" where
  "resp_physc_trace_err ar ret =
     ar\<lparr>resp := r_resp ret, physc := r_physc ret, trace := r_trace ret, err := r_err ret\<rparr>"

text \<open>
  A case of the first switch: set the operation name, call the internal applier,
  return the result, untouched.
\<close>

definition viaInternal ::
  "('p, 'r, 'c, 't, 'w) deps \<Rightarrow> uberApplier \<Rightarrow> 'w \<Rightarrow> string \<Rightarrow> 'p icall \<Rightarrow> bool
     \<Rightarrow> ('p, 'r, 'c, 't, 'w) run" where
  "viaInternal d a w op c shouldApplyV3 =
     (let ar = applyResult_zero;
          w' = invokeInternal d (applyV3Internal a) c shouldApplyV3 w
      in \<lparr>outcome = Returned (Some ar), ua = a, world = w',
          events = CallInternal (applyV3Internal a) c shouldApplyV3 # deferred d op ar\<rparr>)"

text \<open>
  A case of the second switch other than the alarm's: set the operation name, call the
  method of the active chain, assign what it returns, return the result.
\<close>

definition viaChain ::
  "('p, 'r, 'c, 't, 'w) deps \<Rightarrow> uberApplier \<Rightarrow> 'w \<Rightarrow> string \<Rightarrow> 'p call
     \<Rightarrow> (('r, 'c, 't) applyResult \<Rightarrow> ('r, 'c, 't) reply \<Rightarrow> ('r, 'c, 't) applyResult)
     \<Rightarrow> ('p, 'r, 'c, 't, 'w) run" where
  "viaChain d a w op c assign =
     (let (ret, w') = invoke d (applyV3 a) c w;
          ar = assign applyResult_zero ret
      in \<lparr>outcome = Returned (Some ar), ua = a, world = w',
          events = CallChain (applyV3 a) c # deferred d op ar\<rparr>)"

text \<open>The alarm's case, through the handler of this file.\<close>

definition viaAlarm ::
  "('p, 'r, 'c, 't, 'w) deps \<Rightarrow> uberApplier \<Rightarrow> 'w \<Rightarrow> string \<Rightarrow> AlarmRequest
     \<Rightarrow> ('p, 'r, 'c, 't, 'w) run" where
  "viaAlarm d a w op x =
     (let (rsp, er, a', w', evs) = Alarm d a x w;
          ar = applyResult_zero\<lparr>resp := rsp, err := er\<rparr>
      in \<lparr>outcome = Returned (Some ar), ua = a', world = w',
          events = evs @ deferred d op ar\<rparr>)"

text \<open>
  The second switch of \<^verbatim>\<open>dispatch\<close>, with its default. \<open>op\<close> and \<open>ar\<close> are
  the two variables as \<^verbatim>\<open>dispatch\<close> initialises them; a case that assigns the
  operation name passes the new name on, the case of \<^verbatim>\<open>AuthStatus\<close>, which assigns
  none, passes \<open>op\<close>. In the default the logger's \<^verbatim>\<open>Panic\<close> logs and panics, and
  the deferred function runs while the panic unwinds.
\<close>

definition dispatchV3 ::
  "('p, 'r, 'c, 't, 'w) deps \<Rightarrow> uberApplier \<Rightarrow> 'p InternalRaftRequest \<Rightarrow> 'w
     \<Rightarrow> ('p, 'r, 'c, 't, 'w) run" where
  "dispatchV3 d a r w =
     (let op = ''unknown''; ar = applyResult_zero in
      if Range_f r \<noteq> None then
        viaChain d a w ''Range'' (Call_Range (the (Range_f r))) resp_err
      else if Put r \<noteq> None then
        viaChain d a w ''Put'' (Call_Put (the (Put r))) resp_trace_err
      else if DeleteRange r \<noteq> None then
        viaChain d a w ''DeleteRange'' (Call_DeleteRange (the (DeleteRange r))) resp_err
      else if Txn r \<noteq> None then
        viaChain d a w ''Txn'' (Call_Txn (the (Txn r))) resp_trace_err
      else if Compaction r \<noteq> None then
        viaChain d a w ''Compaction'' (Call_Compaction (the (Compaction r))) resp_physc_trace_err
      else if LeaseGrant r \<noteq> None then
        viaChain d a w ''LeaseGrant'' (Call_LeaseGrant (the (LeaseGrant r))) resp_err
      else if LeaseRevoke r \<noteq> None then
        viaChain d a w ''LeaseRevoke'' (Call_LeaseRevoke (the (LeaseRevoke r))) resp_err
      else if LeaseCheckpoint r \<noteq> None then
        viaChain d a w ''LeaseCheckpoint'' (Call_LeaseCheckpoint (the (LeaseCheckpoint r))) resp_err
      else if Alarm_f r \<noteq> None then
        viaAlarm d a w ''Alarm'' (the (Alarm_f r))
      else if Authenticate r \<noteq> None then
        viaChain d a w ''Authenticate'' (Call_Authenticate (the (Authenticate r))) resp_err
      else if AuthEnable r \<noteq> None then
        viaChain d a w ''AuthEnable'' Call_AuthEnable resp_err
      else if AuthDisable r \<noteq> None then
        viaChain d a w ''AuthDisable'' Call_AuthDisable resp_err
      else if AuthStatus r \<noteq> None then
        viaChain d a w op Call_AuthStatus resp_err
      else if AuthUserAdd r \<noteq> None then
        viaChain d a w ''AuthUserAdd'' (Call_UserAdd (the (AuthUserAdd r))) resp_err
      else if AuthUserDelete r \<noteq> None then
        viaChain d a w ''AuthUserDelete'' (Call_UserDelete (the (AuthUserDelete r))) resp_err
      else if AuthUserChangePassword r \<noteq> None then
        viaChain d a w ''AuthUserChangePassword''
          (Call_UserChangePassword (the (AuthUserChangePassword r))) resp_err
      else if AuthUserGrantRole r \<noteq> None then
        viaChain d a w ''AuthUserGrantRole'' (Call_UserGrantRole (the (AuthUserGrantRole r))) resp_err
      else if AuthUserGet r \<noteq> None then
        viaChain d a w ''AuthUserGet'' (Call_UserGet (the (AuthUserGet r))) resp_err
      else if AuthUserRevokeRole r \<noteq> None then
        viaChain d a w ''AuthUserRevokeRole'' (Call_UserRevokeRole (the (AuthUserRevokeRole r))) resp_err
      else if AuthRoleAdd r \<noteq> None then
        viaChain d a w ''AuthRoleAdd'' (Call_RoleAdd (the (AuthRoleAdd r))) resp_err
      else if AuthRoleGrantPermission r \<noteq> None then
        viaChain d a w ''AuthRoleGrantPermission''
          (Call_RoleGrantPermission (the (AuthRoleGrantPermission r))) resp_err
      else if AuthRoleGet r \<noteq> None then
        viaChain d a w ''AuthRoleGet'' (Call_RoleGet (the (AuthRoleGet r))) resp_err
      else if AuthRoleRevokePermission r \<noteq> None then
        viaChain d a w ''AuthRoleRevokePermission''
          (Call_RoleRevokePermission (the (AuthRoleRevokePermission r))) resp_err
      else if AuthRoleDelete r \<noteq> None then
        viaChain d a w ''AuthRoleDelete'' (Call_RoleDelete (the (AuthRoleDelete r))) resp_err
      else if AuthUserList r \<noteq> None then
        viaChain d a w ''AuthUserList'' (Call_UserList (the (AuthUserList r))) resp_err
      else if AuthRoleList r \<noteq> None then
        viaChain d a w ''AuthRoleList'' (Call_RoleList (the (AuthRoleList r))) resp_err
      else
        \<lparr>outcome = Panicked, ua = a, world = w, events = LogPanic # deferred d op ar\<rparr>)"

text \<open>
  \<^verbatim>\<open>dispatch\<close>: the first switch, the gate on \<^verbatim>\<open>shouldApplyV3\<close> (which
  returns \<^verbatim>\<open>nil\<close>, the operation name and the result being as initialised when the
  deferred function runs), then the second switch.
\<close>

definition dispatch ::
  "('p, 'r, 'c, 't, 'w) deps \<Rightarrow> uberApplier \<Rightarrow> 'p InternalRaftRequest \<Rightarrow> bool \<Rightarrow> 'w
     \<Rightarrow> ('p, 'r, 'c, 't, 'w) run" where
  "dispatch d a r shouldApplyV3 w =
     (let op = ''unknown''; ar = applyResult_zero in
      if ClusterVersionSet r \<noteq> None then
        viaInternal d a w ''ClusterVersionSet''
          (ICall_ClusterVersionSet (the (ClusterVersionSet r))) shouldApplyV3
      else if ClusterMemberAttrSet r \<noteq> None then
        viaInternal d a w ''ClusterMemberAttrSet''
          (ICall_ClusterMemberAttrSet (the (ClusterMemberAttrSet r))) shouldApplyV3
      else if DowngradeInfoSet r \<noteq> None then
        viaInternal d a w ''DowngradeInfoSet''
          (ICall_DowngradeInfoSet (the (DowngradeInfoSet r))) shouldApplyV3
      else if \<not> shouldApplyV3 then
        \<lparr>outcome = Returned None, ua = a, world = w, events = deferred d op ar\<rparr>
      else dispatchV3 d a r w)"

definition Apply ::
  "('p, 'r, 'c, 't, 'w) deps \<Rightarrow> uberApplier \<Rightarrow> 'p InternalRaftRequest \<Rightarrow> bool \<Rightarrow> 'w
     \<Rightarrow> ('p, 'r, 'c, 't, 'w) run" where
  "Apply d a r shouldApplyV3 w = WrapApply d (applyV3 a) r shouldApplyV3 (dispatch d a) w"

subsection \<open>Reachable appliers\<close>

text \<open>
  An \<^verbatim>\<open>uberApplier\<close> is built by \<^verbatim>\<open>newUberApplier\<close> and changes only through
  \<^verbatim>\<open>dispatch\<close> and \<^verbatim>\<open>RestoreAlarms\<close>, whatever the server's state at each call.
\<close>

inductive reachable :: "('p, 'r, 'c, 't, 'w) deps \<Rightarrow> uberApplier \<Rightarrow> bool"
  for d :: "('p, 'r, 'c, 't, 'w) deps" where
    constructed: "reachable d (fst (newUberApplier d w))"
  | dispatched: "reachable d a \<Longrightarrow> reachable d (ua (dispatch d a r f w))"
  | restored: "reachable d a \<Longrightarrow> reachable d (fst (RestoreAlarms d a w))"

subsection \<open>The words of the specification\<close>

text \<open>
  The active chain of section 4.3: the fixed base, wrapped by the space lockdown when the
  out-of-space alarm is active, then by the corruption lockdown when the corruption alarm is.
\<close>

definition activeChain :: "bool \<Rightarrow> bool \<Rightarrow> applierV3" where
  "activeChain noSpace corrupt =
     (let base = authApplierV3 (quotaApplierV3 applierV3backend);
          capped = (if noSpace then applierV3Capped base else base)
      in if corrupt then applierV3Corrupt capped else capped)"

text \<open>
  The cluster-control variant of a request, if one is set, with its operation name:
  the first of the three in the order of the first switch.
\<close>

definition controlCall :: "'p InternalRaftRequest \<Rightarrow> (string \<times> 'p icall) option" where
  "controlCall r =
     (case ClusterVersionSet r of
        Some x \<Rightarrow> Some (''ClusterVersionSet'', ICall_ClusterVersionSet x)
      | None \<Rightarrow>
     (case ClusterMemberAttrSet r of
        Some x \<Rightarrow> Some (''ClusterMemberAttrSet'', ICall_ClusterMemberAttrSet x)
      | None \<Rightarrow>
     (case DowngradeInfoSet r of
        Some x \<Rightarrow> Some (''DowngradeInfoSet'', ICall_DowngradeInfoSet x)
      | None \<Rightarrow> None)))"

text \<open>A request in which no variant is set.\<close>

definition noRequest :: "'p InternalRaftRequest" where
  "noRequest =
     \<lparr>ClusterVersionSet = None, ClusterMemberAttrSet = None, DowngradeInfoSet = None,
      Range_f = None, Put = None, DeleteRange = None, Txn = None, Compaction = None,
      LeaseGrant = None, LeaseRevoke = None, LeaseCheckpoint = None, Alarm_f = None,
      Authenticate = None, AuthEnable = None, AuthDisable = None, AuthStatus = None,
      AuthUserAdd = None, AuthUserDelete = None, AuthUserChangePassword = None,
      AuthUserGrantRole = None, AuthUserGet = None, AuthUserRevokeRole = None,
      AuthRoleAdd = None, AuthRoleGrantPermission = None, AuthRoleGet = None,
      AuthRoleRevokePermission = None, AuthRoleDelete = None, AuthUserList = None,
      AuthRoleList = None\<rparr>"

text \<open>No data-plane or auth-plane variant is set (the fields of the second switch).\<close>

definition noV3Variant :: "'p InternalRaftRequest \<Rightarrow> bool" where
  "noV3Variant r \<longleftrightarrow>
     Range_f r = None \<and> Put r = None \<and> DeleteRange r = None \<and> Txn r = None \<and>
     Compaction r = None \<and> LeaseGrant r = None \<and> LeaseRevoke r = None \<and>
     LeaseCheckpoint r = None \<and> Alarm_f r = None \<and> Authenticate r = None \<and>
     AuthEnable r = None \<and> AuthDisable r = None \<and> AuthStatus r = None \<and>
     AuthUserAdd r = None \<and> AuthUserDelete r = None \<and> AuthUserChangePassword r = None \<and>
     AuthUserGrantRole r = None \<and> AuthUserGet r = None \<and> AuthUserRevokeRole r = None \<and>
     AuthRoleAdd r = None \<and> AuthRoleGrantPermission r = None \<and> AuthRoleGet r = None \<and>
     AuthRoleRevokePermission r = None \<and> AuthRoleDelete r = None \<and> AuthUserList r = None \<and>
     AuthRoleList r = None"

text \<open>An alarm request that activates or deactivates an alarm is set in the request.\<close>

definition changesAlarm :: "'p InternalRaftRequest \<Rightarrow> bool" where
  "changesAlarm r =
     (case Alarm_f r of
        None \<Rightarrow> False
      | Some x \<Rightarrow> Action x = AlarmRequest_ACTIVATE \<or> Action x = AlarmRequest_DEACTIVATE)"

text \<open>
  The error of what \<^verbatim>\<open>dispatch\<close> hands back: none when it returns \<^verbatim>\<open>nil\<close>, and
  none when it panics (the result's error is still unset then).
\<close>

fun outcome_err :: "('r, 'c, 't) outcome \<Rightarrow> error option" where
  "outcome_err (Returned (Some ar)) = err ar"
| "outcome_err (Returned None) = None"
| "outcome_err Panicked = None"

text \<open>Successful: the error is absent or is the already-compacted error.\<close>

definition successful :: "('r, 'c, 't) outcome \<Rightarrow> bool" where
  "successful out \<longleftrightarrow> outcome_err out = None \<or> outcome_err out = Some ErrCompacted"

fun is_Observe :: "'p event \<Rightarrow> bool" where
  "is_Observe (Observe v op s) = True"
| "is_Observe e = False"

text \<open>A call of a method of the chain (down to the backend) or of the internal applier.\<close>

fun is_applierCall :: "'p event \<Rightarrow> bool" where
  "is_applierCall (CallChain ch c) = True"
| "is_applierCall (CallInternal i c b) = True"
| "is_applierCall e = False"

fun is_chainCall :: "'p event \<Rightarrow> bool" where
  "is_chainCall (CallChain ch c) = True"
| "is_chainCall e = False"

fun is_alarmStoreGet :: "'p event \<Rightarrow> bool" where
  "is_alarmStoreGet (AlarmStoreGet t) = True"
| "is_alarmStoreGet e = False"

text \<open>
  The operation name of a request: the name of the first variant set, in the order in which
  \<^verbatim>\<open>dispatch\<close> tests them.
\<close>

definition operationName :: "'p InternalRaftRequest \<Rightarrow> string option" where
  "operationName r =
     (if ClusterVersionSet r \<noteq> None then Some ''ClusterVersionSet''
      else if ClusterMemberAttrSet r \<noteq> None then Some ''ClusterMemberAttrSet''
      else if DowngradeInfoSet r \<noteq> None then Some ''DowngradeInfoSet''
      else if Range_f r \<noteq> None then Some ''Range''
      else if Put r \<noteq> None then Some ''Put''
      else if DeleteRange r \<noteq> None then Some ''DeleteRange''
      else if Txn r \<noteq> None then Some ''Txn''
      else if Compaction r \<noteq> None then Some ''Compaction''
      else if LeaseGrant r \<noteq> None then Some ''LeaseGrant''
      else if LeaseRevoke r \<noteq> None then Some ''LeaseRevoke''
      else if LeaseCheckpoint r \<noteq> None then Some ''LeaseCheckpoint''
      else if Alarm_f r \<noteq> None then Some ''Alarm''
      else if Authenticate r \<noteq> None then Some ''Authenticate''
      else if AuthEnable r \<noteq> None then Some ''AuthEnable''
      else if AuthDisable r \<noteq> None then Some ''AuthDisable''
      else if AuthStatus r \<noteq> None then Some ''AuthStatus''
      else if AuthUserAdd r \<noteq> None then Some ''AuthUserAdd''
      else if AuthUserDelete r \<noteq> None then Some ''AuthUserDelete''
      else if AuthUserChangePassword r \<noteq> None then Some ''AuthUserChangePassword''
      else if AuthUserGrantRole r \<noteq> None then Some ''AuthUserGrantRole''
      else if AuthUserGet r \<noteq> None then Some ''AuthUserGet''
      else if AuthUserRevokeRole r \<noteq> None then Some ''AuthUserRevokeRole''
      else if AuthRoleAdd r \<noteq> None then Some ''AuthRoleAdd''
      else if AuthRoleGrantPermission r \<noteq> None then Some ''AuthRoleGrantPermission''
      else if AuthRoleGet r \<noteq> None then Some ''AuthRoleGet''
      else if AuthRoleRevokePermission r \<noteq> None then Some ''AuthRoleRevokePermission''
      else if AuthRoleDelete r \<noteq> None then Some ''AuthRoleDelete''
      else if AuthUserList r \<noteq> None then Some ''AuthUserList''
      else if AuthRoleList r \<noteq> None then Some ''AuthRoleList''
      else None)"

text \<open>
  The run observes the metric once, with operation \<open>n\<close> and with the success label of its
  outcome.
\<close>

definition labelled :: "('p, 'r, 'c, 't, 'w) deps \<Rightarrow> string \<Rightarrow> ('p, 'r, 'c, 't, 'w) run \<Rightarrow> bool" where
  "labelled d n p \<longleftrightarrow>
     filter is_Observe (events p) = [Observe (v3Version d) n (FormatBool (successful (outcome p)))]"

text \<open>
  The chain's \<^verbatim>\<open>WrapApply\<close> hands this request to the function it is given and
  returns what the function returns.
\<close>

definition handsOver ::
  "('p, 'r, 'c, 't, 'w) deps \<Rightarrow> uberApplier \<Rightarrow> 'p InternalRaftRequest \<Rightarrow> bool \<Rightarrow> 'w \<Rightarrow> bool" where
  "handsOver d a r f w \<longleftrightarrow>
     WrapApply d (applyV3 a) r f (dispatch d a) w = dispatch d a r f w"

subsection \<open>A small server, for the examples\<close>

text \<open>
  The server's state is the list of raised alarms and the list of internal requests
  applied. The backend raises and clears alarms (and leaves them as they are on a query and on
  any other action), answers a compaction of revision 0 with
  the already-compacted error and everything else with a response; the space lockdown
  refuses a put, the corruption lockdown a put and a range; \<^verbatim>\<open>WrapApply\<close> hands the
  request over.
\<close>

record demo_world =
  alarms :: "AlarmMember list"
  applied :: "nat icall list"

definition demo_ok :: "(nat, nat, nat) reply" where
  "demo_ok = \<lparr>r_resp = Some 1, r_physc = None, r_trace = None, r_err = None\<rparr>"

definition demo_fail :: "error \<Rightarrow> (nat, nat, nat) reply" where
  "demo_fail e = \<lparr>r_resp = None, r_physc = None, r_trace = None, r_err = Some e\<rparr>"

fun demo_backend :: "nat call \<Rightarrow> demo_world \<Rightarrow> (nat, nat, nat) reply \<times> demo_world" where
  "demo_backend (Call_Alarm x) w =
     (let m = (MemberID x, AlarmKind x)
      in if Action x = AlarmRequest_ACTIVATE then
           (demo_ok, w\<lparr>alarms := (if m \<in> set (alarms w) then alarms w else alarms w @ [m])\<rparr>)
         else if Action x = AlarmRequest_DEACTIVATE then
           (demo_ok, w\<lparr>alarms := removeAll m (alarms w)\<rparr>)
         else (demo_ok, w))"
| "demo_backend (Call_Compaction n) w =
     (if n = 0 then (demo_fail ErrCompacted, w)
      else (demo_ok\<lparr>r_physc := Some n, r_trace := Some n\<rparr>, w))"
| "demo_backend c w = (demo_ok, w)"

fun demo_invoke :: "applierV3 \<Rightarrow> nat call \<Rightarrow> demo_world \<Rightarrow> (nat, nat, nat) reply \<times> demo_world" where
  "demo_invoke applierV3backend c w = demo_backend c w"
| "demo_invoke (quotaApplierV3 inner) c w = demo_invoke inner c w"
| "demo_invoke (authApplierV3 inner) c w = demo_invoke inner c w"
| "demo_invoke (applierV3Capped inner) (Call_Put x) w = (demo_fail (Err ''no space''), w)"
| "demo_invoke (applierV3Capped inner) c w = demo_invoke inner c w"
| "demo_invoke (applierV3Corrupt inner) (Call_Put x) w = (demo_fail (Err ''corrupt''), w)"
| "demo_invoke (applierV3Corrupt inner) (Call_Range x) w = (demo_fail (Err ''corrupt''), w)"
| "demo_invoke (applierV3Corrupt inner) c w = demo_invoke inner c w"

definition demo_deps :: "(nat, nat, nat, nat, demo_world) deps" where
  "demo_deps =
     \<lparr>v3Version = ''v3'',
      invoke = demo_invoke,
      invokeInternal = (\<lambda>i c f w. w\<lparr>applied := applied w @ [c]\<rparr>),
      alarmStore_Get = (\<lambda>w t. filter (\<lambda>m. snd m = t) (alarms w)),
      WrapApply = (\<lambda>ch r f g w. g r f w)\<rparr>"

definition demo_quiet :: demo_world where
  "demo_quiet = \<lparr>alarms = [], applied = []\<rparr>"

definition demo_full :: demo_world where
  "demo_full = \<lparr>alarms = [(1, AlarmType_NOSPACE)], applied = []\<rparr>"

definition demo_ua :: uberApplier where
  "demo_ua = fst (newUberApplier demo_deps demo_quiet)"

definition activate :: "AlarmType \<Rightarrow> AlarmRequest" where
  "activate t = \<lparr>Action = AlarmRequest_ACTIVATE, MemberID = 1, AlarmKind = t\<rparr>"

definition query :: AlarmRequest where
  "query = \<lparr>Action = AlarmRequest_GET, MemberID = 0, AlarmKind = AlarmType_NONE\<rparr>"

text \<open>A request whose action is none of the three named values.\<close>

definition unnamedAction :: AlarmRequest where
  "unnamedAction = \<lparr>Action = 7, MemberID = 1, AlarmKind = AlarmType_CORRUPT\<rparr>"

section \<open>Properties\<close>

subsection \<open>The deferred function\<close>

lemma deferred_zero:
  "deferred d op applyResult_zero = [Observe (v3Version d) op ''true'', WarnOfExpensiveRequest]"
  by (simp add: deferred_def applyResult_zero_def FormatBool_def)

lemma deferred_Observe:
  "filter is_Observe (deferred d op ar) =
     [Observe (v3Version d) op (FormatBool (err ar = None \<or> err ar = Some ErrCompacted))]"
  by (simp add: deferred_def Let_def)

lemma deferred_WarnOfFailedRequest:
  "WarnOfFailedRequest \<in> set (deferred d op ar) \<longleftrightarrow>
     \<not> (err ar = None \<or> err ar = Some ErrCompacted)"
  by (simp add: deferred_def Let_def)

lemma deferred_no_call:
  "filter is_applierCall (deferred d op ar) = []"
  "filter is_alarmStoreGet (deferred d op ar) = []"
  by (simp_all add: deferred_def Let_def)

subsection \<open>Rebuilding the chain\<close>

lemma RestoreAlarms_events:
  "snd (RestoreAlarms d a w) = [AlarmStoreGet AlarmType_NOSPACE, AlarmStoreGet AlarmType_CORRUPT]"
  by (simp add: RestoreAlarms_def Let_def)

lemma RestoreAlarms_frame:
  "applyV3base (fst (RestoreAlarms d a w)) = applyV3base a"
  "applyV3Internal (fst (RestoreAlarms d a w)) = applyV3Internal a"
  by (simp_all add: RestoreAlarms_def Let_def)

lemma RestoreAlarms_applyV3:
  "applyV3 (fst (RestoreAlarms d a w)) =
     (let capped = (if alarmStore_Get d w AlarmType_NOSPACE \<noteq> []
                    then applierV3Capped (applyV3base a) else applyV3base a)
      in if alarmStore_Get d w AlarmType_CORRUPT \<noteq> [] then applierV3Corrupt capped else capped)"
  by (simp add: RestoreAlarms_def Let_def newApplierV3Capped_def newApplierV3Corrupt_def)

lemma newUberApplier_base:
  "applyV3base (fst (newUberApplier d w)) = authApplierV3 (quotaApplierV3 applierV3backend)"
  by (simp add: newUberApplier_def Let_def RestoreAlarms_frame newApplierV3_def
      newAuthApplierV3_def newQuotaApplierV3_def newApplierV3Backend_def)

subsection \<open>The branches of dispatch\<close>

lemma viaInternal_run:
  "viaInternal d a w op c f =
     \<lparr>outcome = Returned (Some \<lparr>resp = None, err = None, physc = None, trace = None\<rparr>),
      ua = a, world = invokeInternal d (applyV3Internal a) c f w,
      events = [CallInternal (applyV3Internal a) c f,
                Observe (v3Version d) op ''true'', WarnOfExpensiveRequest]\<rparr>"
  by (simp add: viaInternal_def Let_def deferred_zero) (simp add: applyResult_zero_def)

lemma dispatch_control:
  "controlCall r = Some (op, c) \<Longrightarrow> dispatch d a r f w = viaInternal d a w op c f"
  by (auto simp add: controlCall_def dispatch_def Let_def split: option.splits)

lemma dispatch_gate_closed:
  "controlCall r = None \<Longrightarrow>
   dispatch d a r False w =
     \<lparr>outcome = Returned None, ua = a, world = w,
      events = [Observe (v3Version d) ''unknown'' ''true'', WarnOfExpensiveRequest]\<rparr>"
  by (simp add: controlCall_def dispatch_def Let_def deferred_zero split: option.splits)

lemma dispatch_gate_open:
  "controlCall r = None \<Longrightarrow> dispatch d a r True w = dispatchV3 d a r w"
  by (simp add: controlCall_def dispatch_def Let_def split: option.splits)

lemma dispatchV3_panic:
  "noV3Variant r \<Longrightarrow>
   dispatchV3 d a r w =
     \<lparr>outcome = Panicked, ua = a, world = w,
      events = [LogPanic, Observe (v3Version d) ''unknown'' ''true'', WarnOfExpensiveRequest]\<rparr>"
  by (simp add: noV3Variant_def dispatchV3_def Let_def deferred_zero)

lemma viaChain_frame: "ua (viaChain d a w op c g) = a"
  by (simp add: viaChain_def Let_def split: prod.splits)

lemma viaInternal_frame: "ua (viaInternal d a w op c f) = a"
  by (simp add: viaInternal_def Let_def)

text \<open>
  Every run of \<^verbatim>\<open>dispatch\<close> is of one of five kinds: a call of the internal
  applier, the closed gate, a call of one method of the chain, the alarm handler, the panic.
\<close>

lemma dispatchV3_cases [case_names chain alarm panic]:
  assumes chain: "\<And>op c g. P (viaChain d a w op c g)"
    and alarm: "\<And>x. Alarm_f r = Some x \<Longrightarrow> P (viaAlarm d a w ''Alarm'' x)"
    and panic: "noV3Variant r \<Longrightarrow>
      P \<lparr>outcome = Panicked, ua = a, world = w,
         events = [LogPanic, Observe (v3Version d) ''unknown'' ''true'', WarnOfExpensiveRequest]\<rparr>"
  shows "P (dispatchV3 d a r w)"
proof -
  have al: "Alarm_f r \<noteq> None \<Longrightarrow> P (viaAlarm d a w ''Alarm'' (the (Alarm_f r)))"
    using alarm [of "the (Alarm_f r)"] by simp
  from panic show ?thesis
    unfolding dispatchV3_def noV3Variant_def Let_def
    by (simp add: chain al deferred_zero)
qed

lemma dispatch_cases [case_names control closed "open"]:
  assumes control: "\<And>op c. controlCall r = Some (op, c) \<Longrightarrow> P (viaInternal d a w op c f)"
    and closed: "controlCall r = None \<Longrightarrow> \<not> f \<Longrightarrow>
      P \<lparr>outcome = Returned None, ua = a, world = w,
         events = [Observe (v3Version d) ''unknown'' ''true'', WarnOfExpensiveRequest]\<rparr>"
    and "open": "controlCall r = None \<Longrightarrow> f \<Longrightarrow> P (dispatchV3 d a r w)"
  shows "P (dispatch d a r f w)"
proof (cases "controlCall r")
  case None
  show ?thesis
  proof (cases f)
    case True
    with None "open" show ?thesis by (simp add: dispatch_gate_open)
  next
    case False
    with None closed show ?thesis by (simp add: dispatch_gate_closed)
  qed
next
  case (Some oc)
  then obtain op c where "controlCall r = Some (op, c)" by (cases oc) simp
  with control show ?thesis by (simp add: dispatch_control)
qed

subsection \<open>The alarm handler and the frame of dispatch\<close>

lemma Alarm_result:
  "Alarm d a x w =
     (let ret = fst (invoke d (applyV3 a) (Call_Alarm x) w);
          w' = snd (invoke d (applyV3 a) (Call_Alarm x) w);
          restore = (Action x = AlarmRequest_ACTIVATE \<or> Action x = AlarmRequest_DEACTIVATE)
      in (r_resp ret, r_err ret,
          if restore then fst (RestoreAlarms d a w') else a,
          w',
          CallChain (applyV3 a) (Call_Alarm x) #
            (if restore then [AlarmStoreGet AlarmType_NOSPACE, AlarmStoreGet AlarmType_CORRUPT]
             else [])))"
  by (simp add: Alarm_def Let_def case_prod_beta RestoreAlarms_events)

lemma viaAlarm_ua:
  "ua (viaAlarm d a w op x) =
     (if Action x = AlarmRequest_ACTIVATE \<or> Action x = AlarmRequest_DEACTIVATE
      then fst (RestoreAlarms d a (snd (invoke d (applyV3 a) (Call_Alarm x) w))) else a)"
  by (simp add: viaAlarm_def Alarm_result Let_def)

lemma dispatchV3_ua:
  "ua (dispatchV3 d a r w) = a \<or>
   changesAlarm r \<and> (\<exists>w'. ua (dispatchV3 d a r w) = fst (RestoreAlarms d a w'))"
proof (induction rule: dispatchV3_cases)
  case (chain op c g)
  show ?case by (simp add: viaChain_frame)
next
  case (alarm x)
  then show ?case by (auto simp add: viaAlarm_ua changesAlarm_def)
next
  case panic
  show ?case by simp
qed

lemma dispatch_ua:
  "ua (dispatch d a r f w) = a \<or>
   changesAlarm r \<and> (\<exists>w'. ua (dispatch d a r f w) = fst (RestoreAlarms d a w'))"
proof (induction rule: dispatch_cases)
  case (control op c)
  show ?case by (simp add: viaInternal_frame)
next
  case closed
  show ?case by simp
next
  case "open"
  show ?case by (rule dispatchV3_ua)
qed

lemma dispatch_frame:
  "applyV3base (ua (dispatch d a r f w)) = applyV3base a"
  "applyV3Internal (ua (dispatch d a r f w)) = applyV3Internal a"
  using dispatch_ua [of d a r f w] by (auto simp add: RestoreAlarms_frame)

subsection \<open>The invariant of the chain\<close>

lemma activeChain_RestoreAlarms:
  "applyV3base a = authApplierV3 (quotaApplierV3 applierV3backend) \<Longrightarrow>
   applyV3 (fst (RestoreAlarms d a w)) =
     activeChain (alarmStore_Get d w AlarmType_NOSPACE \<noteq> [])
       (alarmStore_Get d w AlarmType_CORRUPT \<noteq> [])"
  by (simp add: RestoreAlarms_applyV3 activeChain_def)

lemma newUberApplier_applyV3:
  "applyV3 (fst (newUberApplier d w)) =
     activeChain (alarmStore_Get d w AlarmType_NOSPACE \<noteq> [])
       (alarmStore_Get d w AlarmType_CORRUPT \<noteq> [])"
  by (simp add: newUberApplier_def Let_def activeChain_RestoreAlarms newApplierV3_def
      newAuthApplierV3_def newQuotaApplierV3_def newApplierV3Backend_def)

lemma reachable_invariant:
  "reachable d a \<Longrightarrow>
   applyV3base a = authApplierV3 (quotaApplierV3 applierV3backend) \<and>
   (\<exists>noSpace corrupt. applyV3 a = activeChain noSpace corrupt)"
proof (induction rule: reachable.induct)
  case (constructed w)
  have "\<exists>noSpace corrupt. applyV3 (fst (newUberApplier d w)) = activeChain noSpace corrupt"
    using newUberApplier_applyV3 [of d w] by blast
  then show ?case by (simp add: newUberApplier_base)
next
  case (dispatched a r f w)
  from dispatch_ua [of d a r f w] show ?case
  proof
    assume "ua (dispatch d a r f w) = a"
    with dispatched.IH show ?thesis by simp
  next
    assume "changesAlarm r \<and> (\<exists>w'. ua (dispatch d a r f w) = fst (RestoreAlarms d a w'))"
    then obtain w' where eq: "ua (dispatch d a r f w) = fst (RestoreAlarms d a w')" by blast
    from dispatched.IH
    have "applyV3 (fst (RestoreAlarms d a w')) =
      activeChain (alarmStore_Get d w' AlarmType_NOSPACE \<noteq> [])
        (alarmStore_Get d w' AlarmType_CORRUPT \<noteq> [])"
      by (simp add: activeChain_RestoreAlarms)
    then have "\<exists>noSpace corrupt. applyV3 (fst (RestoreAlarms d a w')) = activeChain noSpace corrupt"
      by blast
    with dispatched.IH show ?thesis by (simp add: eq RestoreAlarms_frame)
  qed
next
  case (restored a w)
  then have "applyV3 (fst (RestoreAlarms d a w)) =
      activeChain (alarmStore_Get d w AlarmType_NOSPACE \<noteq> [])
        (alarmStore_Get d w AlarmType_CORRUPT \<noteq> [])"
    by (simp add: activeChain_RestoreAlarms)
  then have "\<exists>noSpace corrupt. applyV3 (fst (RestoreAlarms d a w)) = activeChain noSpace corrupt"
    by blast
  with restored.IH show ?case by (simp add: RestoreAlarms_frame)
qed

subsection \<open>The classification of the outcome\<close>

lemma viaChain_classified:
  "filter is_Observe (events (viaChain d a w op c g)) =
     [Observe (v3Version d) op (FormatBool (successful (outcome (viaChain d a w op c g))))]"
  "WarnOfFailedRequest \<in> set (events (viaChain d a w op c g)) \<longleftrightarrow>
     \<not> successful (outcome (viaChain d a w op c g))"
  by (simp_all add: viaChain_def Let_def case_prod_beta successful_def deferred_Observe
      deferred_WarnOfFailedRequest)

lemma viaAlarm_classified:
  "filter is_Observe (events (viaAlarm d a w op x)) =
     [Observe (v3Version d) op (FormatBool (successful (outcome (viaAlarm d a w op x))))]"
  "WarnOfFailedRequest \<in> set (events (viaAlarm d a w op x)) \<longleftrightarrow>
     \<not> successful (outcome (viaAlarm d a w op x))"
  by (simp_all add: viaAlarm_def Alarm_result Let_def successful_def deferred_Observe
      deferred_WarnOfFailedRequest)

lemma dispatchV3_classified:
  "(\<exists>op. filter is_Observe (events (dispatchV3 d a r w)) =
      [Observe (v3Version d) op (FormatBool (successful (outcome (dispatchV3 d a r w))))]) \<and>
   (WarnOfFailedRequest \<in> set (events (dispatchV3 d a r w)) \<longleftrightarrow>
      \<not> successful (outcome (dispatchV3 d a r w)))"
proof (induction rule: dispatchV3_cases)
  case (chain op c g)
  show ?case by (simp add: viaChain_classified)
next
  case (alarm x)
  show ?case by (simp add: viaAlarm_classified)
next
  case panic
  show ?case by (simp add: successful_def FormatBool_def)
qed

lemma dispatch_classified:
  "(\<exists>op. filter is_Observe (events (dispatch d a r f w)) =
      [Observe (v3Version d) op (FormatBool (successful (outcome (dispatch d a r f w))))]) \<and>
   (WarnOfFailedRequest \<in> set (events (dispatch d a r f w)) \<longleftrightarrow>
      \<not> successful (outcome (dispatch d a r f w)))"
proof (induction rule: dispatch_cases)
  case (control op c)
  show ?case by (simp add: viaInternal_run successful_def FormatBool_def)
next
  case closed
  show ?case by (simp add: successful_def FormatBool_def)
next
  case "open"
  show ?case by (rule dispatchV3_classified)
qed

subsection \<open>Requests with one variant set\<close>

lemma dispatch_only_Compaction:
  "dispatch d a (noRequest\<lparr>Compaction := Some x\<rparr>) True w =
     viaChain d a w ''Compaction'' (Call_Compaction x) resp_physc_trace_err"
  by (simp add: dispatch_def dispatchV3_def Let_def noRequest_def)

lemma dispatch_only_AuthStatus:
  "dispatch d a (noRequest\<lparr>AuthStatus := Some x\<rparr>) True w =
     viaChain d a w ''unknown'' Call_AuthStatus resp_err"
  by (simp add: dispatch_def dispatchV3_def Let_def noRequest_def)

lemma controlCall_None_iff:
  "controlCall r = None \<longleftrightarrow>
     ClusterVersionSet r = None \<and> ClusterMemberAttrSet r = None \<and> DowngradeInfoSet r = None"
  by (simp add: controlCall_def split: option.splits)

subsection \<open>The label of the metric\<close>

lemma labelled_viaChain: "labelled d n (viaChain d a w op c g) \<longleftrightarrow> n = op"
  by (auto simp add: labelled_def viaChain_classified)

lemma labelled_viaAlarm: "labelled d n (viaAlarm d a w op x) \<longleftrightarrow> n = op"
  by (auto simp add: labelled_def viaAlarm_classified)

lemma labelled_viaInternal: "labelled d n (viaInternal d a w op c f) \<longleftrightarrow> n = op"
  by (auto simp add: labelled_def viaInternal_run successful_def FormatBool_def)

lemma labelled_panic:
  "labelled d n \<lparr>outcome = Panicked, ua = a, world = w,
      events = LogPanic # deferred d ''unknown'' applyResult_zero\<rparr> \<longleftrightarrow> n = ''unknown''"
  by (auto simp add: labelled_def successful_def FormatBool_def deferred_zero)

lemma dispatchV3_label:
  assumes "controlCall r = None"
  shows "labelled d
     (case operationName r of None \<Rightarrow> ''unknown''
      | Some n \<Rightarrow> if n = ''AuthStatus'' then ''unknown'' else n)
     (dispatchV3 d a r w)"
  using assms unfolding controlCall_None_iff operationName_def dispatchV3_def Let_def
  by (simp add: labelled_viaChain labelled_viaAlarm labelled_panic)

subsection \<open>Evaluating the examples\<close>

lemmas demo_defs =
  demo_deps_def demo_quiet_def demo_full_def demo_ua_def noRequest_def activate_def query_def
  unnamedAction_def demo_ok_def demo_fail_def
  AlarmRequest_GET_def AlarmRequest_ACTIVATE_def AlarmRequest_DEACTIVATE_def

lemmas run_defs =
  dispatch_def dispatchV3_def viaChain_def viaInternal_def viaAlarm_def Alarm_def
  RestoreAlarms_def newUberApplier_def deferred_def FormatBool_def applyResult_zero_def
  resp_err_def resp_trace_err_def resp_physc_trace_err_def
  newApplierV3_def newApplierV3Backend_def newApplierV3Internal_def newQuotaApplierV3_def
  newAuthApplierV3_def newApplierV3Capped_def newApplierV3Corrupt_def Let_def

section \<open>The claims\<close>

text \<open>
  C1. A request in which a cluster-control variant is set (\<^verbatim>\<open>ClusterVersionSet\<close>,
  \<^verbatim>\<open>ClusterMemberAttrSet\<close> or \<^verbatim>\<open>DowngradeInfoSet\<close>) is routed by
  \<^verbatim>\<open>dispatch\<close> to the internal applier, whatever \<^verbatim>\<open>shouldApplyV3\<close>, the active
  chain and the state of the server (and so whatever alarms are raised): the internal applier is
  called once, with the flag passed on; no method of the chain is called and the alarm store is
  not read; the result returned has no response and no error.
\<close>

theorem cluster_control_bypasses_gate_and_chain:
  assumes "ClusterVersionSet r \<noteq> None \<or> ClusterMemberAttrSet r \<noteq> None \<or>
           DowngradeInfoSet r \<noteq> None"
  shows "\<exists>op c. controlCall r = Some (op, c) \<and>
     dispatch d a r f w =
       \<lparr>outcome = Returned (Some \<lparr>resp = None, err = None, physc = None, trace = None\<rparr>),
        ua = a,
        world = invokeInternal d (applyV3Internal a) c f w,
        events = [CallInternal (applyV3Internal a) c f,
                  Observe (v3Version d) op ''true'', WarnOfExpensiveRequest]\<rparr> \<and>
     filter is_chainCall (events (dispatch d a r f w)) = [] \<and>
     filter is_alarmStoreGet (events (dispatch d a r f w)) = []"
proof -
  from assms have "controlCall r \<noteq> None"
    by (simp add: controlCall_None_iff)
  then obtain op c where cc: "controlCall r = Some (op, c)"
    by (cases "controlCall r") auto
  then have "dispatch d a r f w = viaInternal d a w op c f"
    by (rule dispatch_control)
  with cc show ?thesis
    by (simp add: viaInternal_run)
qed

theorem cluster_control_bypasses_gate_and_chain_witness:
  "DowngradeInfoSet (noRequest\<lparr>DowngradeInfoSet := Some (7::nat)\<rparr>) \<noteq> None \<and>
   dispatch demo_deps (fst (newUberApplier demo_deps demo_full))
       (noRequest\<lparr>DowngradeInfoSet := Some 7\<rparr>) False demo_full =
     \<lparr>outcome = Returned (Some \<lparr>resp = None, err = None, physc = None, trace = None\<rparr>),
      ua = \<lparr>applyV3 = applierV3Capped (authApplierV3 (quotaApplierV3 applierV3backend)),
             applyV3base = authApplierV3 (quotaApplierV3 applierV3backend),
             applyV3Internal = applierV3backend_internal\<rparr>,
      world = \<lparr>alarms = [(1, AlarmType_NOSPACE)], applied = [ICall_DowngradeInfoSet 7]\<rparr>,
      events = [CallInternal applierV3backend_internal (ICall_DowngradeInfoSet 7) False,
                Observe ''v3'' ''DowngradeInfoSet'' ''true'', WarnOfExpensiveRequest]\<rparr>"
proof -
  have h: "ClusterVersionSet (noRequest\<lparr>DowngradeInfoSet := Some (7::nat)\<rparr>) \<noteq> None \<or>
      ClusterMemberAttrSet (noRequest\<lparr>DowngradeInfoSet := Some (7::nat)\<rparr>) \<noteq> None \<or>
      DowngradeInfoSet (noRequest\<lparr>DowngradeInfoSet := Some (7::nat)\<rparr>) \<noteq> None"
    by simp
  show ?thesis
    using cluster_control_bypasses_gate_and_chain
      [OF h, of demo_deps "fst (newUberApplier demo_deps demo_full)" False demo_full]
    by (auto simp add: controlCall_def demo_defs newUberApplier_def RestoreAlarms_def
        newApplierV3_def newApplierV3Backend_def newApplierV3Internal_def newQuotaApplierV3_def
        newAuthApplierV3_def newApplierV3Capped_def newApplierV3Corrupt_def Let_def)
qed

text \<open>
  C6. For a request with no cluster-control variant, when \<^verbatim>\<open>shouldApplyV3\<close> is false,
  \<^verbatim>\<open>dispatch\<close> returns \<^verbatim>\<open>nil\<close> and applies nothing: the server and the
  \<^verbatim>\<open>uberApplier\<close> are as before, and no method of the chain (so none of the backend)
  or of the internal applier is called, nor is the alarm store read.
\<close>

theorem gate_closed_applies_nothing:
  assumes "ClusterVersionSet r = None \<and> ClusterMemberAttrSet r = None \<and>
           DowngradeInfoSet r = None"
  shows "outcome (dispatch d a r False w) = Returned None \<and>
     world (dispatch d a r False w) = w \<and>
     ua (dispatch d a r False w) = a \<and>
     filter is_applierCall (events (dispatch d a r False w)) = [] \<and>
     filter is_alarmStoreGet (events (dispatch d a r False w)) = []"
proof -
  from assms have "controlCall r = None"
    by (simp add: controlCall_None_iff)
  then show ?thesis
    by (simp add: dispatch_gate_closed)
qed

theorem gate_closed_applies_nothing_witness:
  "ClusterVersionSet (noRequest\<lparr>Put := Some (3::nat)\<rparr>) = None \<and>
   ClusterMemberAttrSet (noRequest\<lparr>Put := Some (3::nat)\<rparr>) = None \<and>
   DowngradeInfoSet (noRequest\<lparr>Put := Some (3::nat)\<rparr>) = None \<and>
   outcome (dispatch demo_deps demo_ua (noRequest\<lparr>Put := Some 3\<rparr>) False demo_quiet)
     = Returned None \<and>
   world (dispatch demo_deps demo_ua (noRequest\<lparr>Put := Some 3\<rparr>) False demo_quiet)
     = demo_quiet \<and>
   ua (dispatch demo_deps demo_ua (noRequest\<lparr>Put := Some 3\<rparr>) False demo_quiet) = demo_ua \<and>
   filter is_applierCall
     (events (dispatch demo_deps demo_ua (noRequest\<lparr>Put := Some 3\<rparr>) False demo_quiet)) = [] \<and>
   filter is_alarmStoreGet
     (events (dispatch demo_deps demo_ua (noRequest\<lparr>Put := Some 3\<rparr>) False demo_quiet)) = []"
proof -
  have h: "ClusterVersionSet (noRequest\<lparr>Put := Some (3::nat)\<rparr>) = None \<and>
      ClusterMemberAttrSet (noRequest\<lparr>Put := Some (3::nat)\<rparr>) = None \<and>
      DowngradeInfoSet (noRequest\<lparr>Put := Some (3::nat)\<rparr>) = None"
    by (simp add: noRequest_def)
  show ?thesis
    using h gate_closed_applies_nothing [OF h, of demo_deps demo_ua demo_quiet]
    by simp
qed

text \<open>
  C10. For a request with no cluster-control variant, when \<^verbatim>\<open>shouldApplyV3\<close> is false,
  the deferred function still runs before \<^verbatim>\<open>nil\<close> is returned: the metric is observed
  once, with the operation \<^verbatim>\<open>unknown\<close> and the success label \<^verbatim>\<open>true\<close>, though
  nothing was applied.
\<close>

theorem gate_closed_metric_unknown_true:
  assumes "ClusterVersionSet r = None \<and> ClusterMemberAttrSet r = None \<and>
           DowngradeInfoSet r = None"
  shows "events (dispatch d a r False w) =
       [Observe (v3Version d) ''unknown'' ''true'', WarnOfExpensiveRequest] \<and>
     outcome (dispatch d a r False w) = Returned None"
proof -
  from assms have "controlCall r = None"
    by (simp add: controlCall_None_iff)
  then show ?thesis
    by (simp add: dispatch_gate_closed)
qed

theorem gate_closed_metric_unknown_true_witness:
  "ClusterVersionSet (noRequest\<lparr>Range_f := Some (9::nat)\<rparr>) = None \<and>
   ClusterMemberAttrSet (noRequest\<lparr>Range_f := Some (9::nat)\<rparr>) = None \<and>
   DowngradeInfoSet (noRequest\<lparr>Range_f := Some (9::nat)\<rparr>) = None \<and>
   events (dispatch demo_deps demo_ua (noRequest\<lparr>Range_f := Some 9\<rparr>) False demo_full) =
     [Observe ''v3'' ''unknown'' ''true'', WarnOfExpensiveRequest] \<and>
   outcome (dispatch demo_deps demo_ua (noRequest\<lparr>Range_f := Some 9\<rparr>) False demo_full)
     = Returned None"
proof -
  have h: "ClusterVersionSet (noRequest\<lparr>Range_f := Some (9::nat)\<rparr>) = None \<and>
      ClusterMemberAttrSet (noRequest\<lparr>Range_f := Some (9::nat)\<rparr>) = None \<and>
      DowngradeInfoSet (noRequest\<lparr>Range_f := Some (9::nat)\<rparr>) = None"
    by (simp add: noRequest_def)
  show ?thesis
    using h gate_closed_metric_unknown_true [OF h, of demo_deps demo_ua demo_full]
    by (simp add: demo_deps_def)
qed

text \<open>
  C7. \<^verbatim>\<open>RestoreAlarms\<close> is idempotent: called again with the alarms unchanged, it leaves
  the same \<^verbatim>\<open>uberApplier\<close> (the same composition of decorators) as one call does, after
  reading the alarm store the same way.
\<close>

theorem RestoreAlarms_idempotent:
  "RestoreAlarms d (fst (RestoreAlarms d a w)) w = RestoreAlarms d a w"
  by (simp add: RestoreAlarms_def Let_def)

theorem RestoreAlarms_idempotent_witness:
  "RestoreAlarms demo_deps (fst (RestoreAlarms demo_deps demo_ua demo_full)) demo_full =
     RestoreAlarms demo_deps demo_ua demo_full \<and>
   applyV3 (fst (RestoreAlarms demo_deps demo_ua demo_full)) =
     applierV3Capped (authApplierV3 (quotaApplierV3 applierV3backend))"
  using RestoreAlarms_idempotent [of demo_deps demo_ua demo_full]
  by (simp add: demo_defs run_defs)

text \<open>
  C2. For every reachable \<^verbatim>\<open>uberApplier\<close> and every state of the server, after
  \<^verbatim>\<open>RestoreAlarms\<close> the active chain is the fixed base, authorization around quota
  around the backend, wrapped by the capped applier exactly when the alarm store holds an
  out-of-space alarm and then by the corrupt applier exactly when it holds a corruption alarm
  (the corrupt applier outermost when both are raised). The same holds of the chain that
  \<^verbatim>\<open>newUberApplier\<close> builds. In every reachable state the base is that fixed base and
  the active chain is one of the four such chains.
\<close>

theorem RestoreAlarms_active_chain:
  assumes "reachable d a"
  shows "applyV3 (fst (RestoreAlarms d a w)) =
       activeChain (alarmStore_Get d w AlarmType_NOSPACE \<noteq> [])
         (alarmStore_Get d w AlarmType_CORRUPT \<noteq> []) \<and>
     applyV3 (fst (newUberApplier d w)) =
       activeChain (alarmStore_Get d w AlarmType_NOSPACE \<noteq> [])
         (alarmStore_Get d w AlarmType_CORRUPT \<noteq> []) \<and>
     applyV3base a = authApplierV3 (quotaApplierV3 applierV3backend) \<and>
     (\<exists>noSpace corrupt. applyV3 a = activeChain noSpace corrupt)"
  using reachable_invariant [OF assms]
  by (simp add: activeChain_RestoreAlarms newUberApplier_applyV3)

theorem RestoreAlarms_active_chain_witness:
  "reachable demo_deps
     (ua (dispatch demo_deps demo_ua
            (noRequest\<lparr>Alarm_f := Some (activate AlarmType_CORRUPT)\<rparr>) True demo_full)) \<and>
   applyV3 (fst (RestoreAlarms demo_deps
     (ua (dispatch demo_deps demo_ua
            (noRequest\<lparr>Alarm_f := Some (activate AlarmType_CORRUPT)\<rparr>) True demo_full))
     \<lparr>alarms = [(1, AlarmType_NOSPACE), (2, AlarmType_CORRUPT)], applied = []\<rparr>)) =
     applierV3Corrupt (applierV3Capped (authApplierV3 (quotaApplierV3 applierV3backend))) \<and>
   applyV3 (fst (RestoreAlarms demo_deps
     (ua (dispatch demo_deps demo_ua
            (noRequest\<lparr>Alarm_f := Some (activate AlarmType_CORRUPT)\<rparr>) True demo_full))
     \<lparr>alarms = [(2, AlarmType_CORRUPT)], applied = []\<rparr>)) =
     applierV3Corrupt (authApplierV3 (quotaApplierV3 applierV3backend)) \<and>
   applyV3 (fst (RestoreAlarms demo_deps
     (ua (dispatch demo_deps demo_ua
            (noRequest\<lparr>Alarm_f := Some (activate AlarmType_CORRUPT)\<rparr>) True demo_full))
     demo_full)) =
     applierV3Capped (authApplierV3 (quotaApplierV3 applierV3backend)) \<and>
   applyV3 (fst (RestoreAlarms demo_deps
     (ua (dispatch demo_deps demo_ua
            (noRequest\<lparr>Alarm_f := Some (activate AlarmType_CORRUPT)\<rparr>) True demo_full))
     demo_quiet)) =
     authApplierV3 (quotaApplierV3 applierV3backend)"
proof -
  let ?a = "ua (dispatch demo_deps demo_ua
            (noRequest\<lparr>Alarm_f := Some (activate AlarmType_CORRUPT)\<rparr>) True demo_full)"
  have "reachable demo_deps demo_ua"
    unfolding demo_ua_def by (rule reachable.constructed)
  then have h: "reachable demo_deps ?a"
    by (rule reachable.dispatched)
  have g: "alarmStore_Get demo_deps = (\<lambda>w t. filter (\<lambda>m. snd m = t) (alarms w))"
    by (simp add: demo_deps_def)
  show ?thesis
    using h
      RestoreAlarms_active_chain [OF h,
        of "\<lparr>alarms = [(1, AlarmType_NOSPACE), (2, AlarmType_CORRUPT)], applied = []\<rparr>"]
      RestoreAlarms_active_chain [OF h, of "\<lparr>alarms = [(2, AlarmType_CORRUPT)], applied = []\<rparr>"]
      RestoreAlarms_active_chain [OF h, of demo_full]
      RestoreAlarms_active_chain [OF h, of demo_quiet]
    by (simp add: g activeChain_def demo_full_def demo_quiet_def)
qed

text \<open>
  C3. The alarm handler first calls the \<^verbatim>\<open>Alarm\<close> method of the chain that is
  active when it is entered; then, exactly when the action is to activate or to deactivate, it
  runs \<^verbatim>\<open>RestoreAlarms\<close> on the state the call left, whatever error the call
  returned; for a query it never does: the alarm store is not read and the applier is as
  before. The response and the error it returns are the call's.
\<close>

theorem Alarm_delegates_then_restores:
  "Alarm d a x w =
     (let ret = fst (invoke d (applyV3 a) (Call_Alarm x) w);
          w' = snd (invoke d (applyV3 a) (Call_Alarm x) w);
          restore = (Action x = AlarmRequest_ACTIVATE \<or> Action x = AlarmRequest_DEACTIVATE)
      in (r_resp ret, r_err ret,
          if restore then fst (RestoreAlarms d a w') else a,
          w',
          CallChain (applyV3 a) (Call_Alarm x) #
            (if restore then snd (RestoreAlarms d a w') else []))) \<and>
   (filter is_alarmStoreGet (snd (snd (snd (snd (Alarm d a x w))))) \<noteq> []
      \<longleftrightarrow> Action x = AlarmRequest_ACTIVATE \<or> Action x = AlarmRequest_DEACTIVATE) \<and>
   (Action x = AlarmRequest_GET \<longrightarrow>
      fst (snd (snd (Alarm d a x w))) = a \<and>
      filter is_alarmStoreGet (snd (snd (snd (snd (Alarm d a x w))))) = [])"
proof -
  have named: "AlarmRequest_GET \<noteq> AlarmRequest_ACTIVATE"
    "AlarmRequest_GET \<noteq> AlarmRequest_DEACTIVATE"
    by (simp_all add: AlarmRequest_GET_def AlarmRequest_ACTIVATE_def AlarmRequest_DEACTIVATE_def)
  show ?thesis
    using named by (auto simp add: Alarm_result RestoreAlarms_events Let_def)
qed

theorem Alarm_delegates_then_restores_witness:
  "Alarm demo_deps (fst (newUberApplier demo_deps demo_full)) (activate AlarmType_CORRUPT) demo_full
     = (Some 1, None,
        \<lparr>applyV3 = applierV3Corrupt (applierV3Capped
                      (authApplierV3 (quotaApplierV3 applierV3backend))),
         applyV3base = authApplierV3 (quotaApplierV3 applierV3backend),
         applyV3Internal = applierV3backend_internal\<rparr>,
        \<lparr>alarms = [(1, AlarmType_NOSPACE), (1, AlarmType_CORRUPT)], applied = []\<rparr>,
        [CallChain (applierV3Capped (authApplierV3 (quotaApplierV3 applierV3backend)))
           (Call_Alarm (activate AlarmType_CORRUPT)),
         AlarmStoreGet AlarmType_NOSPACE, AlarmStoreGet AlarmType_CORRUPT]) \<and>
   Action query = AlarmRequest_GET \<and>
   Alarm demo_deps (fst (newUberApplier demo_deps demo_full)) query demo_full
     = (Some 1, None, fst (newUberApplier demo_deps demo_full), demo_full,
        [CallChain (applierV3Capped (authApplierV3 (quotaApplierV3 applierV3backend)))
           (Call_Alarm query)]) \<and>
   Alarm demo_deps (fst (newUberApplier demo_deps demo_full)) unnamedAction demo_full
     = (Some 1, None, fst (newUberApplier demo_deps demo_full), demo_full,
        [CallChain (applierV3Capped (authApplierV3 (quotaApplierV3 applierV3backend)))
           (Call_Alarm unnamedAction)])"
  using Alarm_delegates_then_restores
      [of demo_deps "fst (newUberApplier demo_deps demo_full)" "activate AlarmType_CORRUPT" demo_full]
    Alarm_delegates_then_restores
      [of demo_deps "fst (newUberApplier demo_deps demo_full)" query demo_full]
    Alarm_delegates_then_restores
      [of demo_deps "fst (newUberApplier demo_deps demo_full)" unnamedAction demo_full]
  by (simp add: demo_defs run_defs)

text \<open>
  C9. For a request that holds no alarm request activating or deactivating an alarm,
  \<^verbatim>\<open>dispatch\<close> leaves the \<^verbatim>\<open>uberApplier\<close> as it was: the active chain, the base
  and the internal applier; and so does \<^verbatim>\<open>Apply\<close> when the chain's
  \<^verbatim>\<open>WrapApply\<close> hands the request over. For every request the base and the internal
  applier are as before: only the active chain is ever replaced.
\<close>

theorem dispatch_frame_uberApplier:
  assumes "\<not> changesAlarm r"
  shows "ua (dispatch d a r f w) = a \<and>
     (handsOver d a r f w \<longrightarrow> ua (Apply d a r f w) = a) \<and>
     (\<forall>r'. applyV3base (ua (dispatch d a r' f w)) = applyV3base a \<and>
           applyV3Internal (ua (dispatch d a r' f w)) = applyV3Internal a)"
  using assms dispatch_ua [of d a r f w]
  by (simp add: dispatch_frame handsOver_def Apply_def)

theorem dispatch_frame_uberApplier_witness:
  "\<not> changesAlarm (noRequest\<lparr>Alarm_f := Some query\<rparr> :: nat InternalRaftRequest) \<and>
   handsOver demo_deps (fst (newUberApplier demo_deps demo_full))
     (noRequest\<lparr>Alarm_f := Some query\<rparr>) True demo_quiet \<and>
   ua (dispatch demo_deps (fst (newUberApplier demo_deps demo_full))
     (noRequest\<lparr>Alarm_f := Some query\<rparr>) True demo_quiet) =
     fst (newUberApplier demo_deps demo_full) \<and>
   ua (Apply demo_deps (fst (newUberApplier demo_deps demo_full))
     (noRequest\<lparr>Alarm_f := Some query\<rparr>) True demo_quiet) =
     fst (newUberApplier demo_deps demo_full) \<and>
   applyV3 (fst (newUberApplier demo_deps demo_full)) \<noteq>
     applyV3 (fst (newUberApplier demo_deps demo_quiet))"
proof -
  have h: "\<not> changesAlarm (noRequest\<lparr>Alarm_f := Some query\<rparr> :: nat InternalRaftRequest)"
    by (simp add: changesAlarm_def query_def AlarmRequest_GET_def AlarmRequest_ACTIVATE_def
        AlarmRequest_DEACTIVATE_def)
  have g: "handsOver demo_deps (fst (newUberApplier demo_deps demo_full))
     (noRequest\<lparr>Alarm_f := Some query\<rparr>) True demo_quiet"
    by (simp add: handsOver_def demo_deps_def)
  have n: "applyV3 (fst (newUberApplier demo_deps demo_full)) \<noteq>
     applyV3 (fst (newUberApplier demo_deps demo_quiet))"
    by (simp add: demo_defs run_defs)
  show ?thesis
    using h g n dispatch_frame_uberApplier
      [OF h, of demo_deps "fst (newUberApplier demo_deps demo_full)" True demo_quiet]
    by simp
qed

text \<open>
  C4. For every request, flag, applier and state, \<^verbatim>\<open>dispatch\<close> observes the metric
  exactly once, and its success label is \<^verbatim>\<open>true\<close> exactly when the error of what is
  handed back is absent or is the already-compacted error; \<^verbatim>\<open>warnOfFailedRequest\<close> is
  called exactly when it is not. When the chain answers a compaction with the already-compacted
  error, that error is the error of the result returned, the label is \<^verbatim>\<open>true\<close> and
  \<^verbatim>\<open>warnOfFailedRequest\<close> is not called.
\<close>

theorem dispatch_success_classification:
  "(\<exists>op. filter is_Observe (events (dispatch d a r f w)) =
      [Observe (v3Version d) op (FormatBool (successful (outcome (dispatch d a r f w))))]) \<and>
   (WarnOfFailedRequest \<in> set (events (dispatch d a r f w)) \<longleftrightarrow>
      \<not> successful (outcome (dispatch d a r f w))) \<and>
   (successful (outcome (dispatch d a r f w)) \<longleftrightarrow>
      outcome_err (outcome (dispatch d a r f w)) = None \<or>
      outcome_err (outcome (dispatch d a r f w)) = Some ErrCompacted) \<and>
   (r_err (fst (invoke d (applyV3 a) (Call_Compaction x) w)) = Some ErrCompacted \<longrightarrow>
      outcome_err (outcome (dispatch d a (noRequest\<lparr>Compaction := Some x\<rparr>) True w))
        = Some ErrCompacted \<and>
      filter is_Observe (events (dispatch d a (noRequest\<lparr>Compaction := Some x\<rparr>) True w))
        = [Observe (v3Version d) ''Compaction'' ''true''] \<and>
      WarnOfFailedRequest \<notin> set (events (dispatch d a (noRequest\<lparr>Compaction := Some x\<rparr>) True w)))"
proof -
  have "r_err (fst (invoke d (applyV3 a) (Call_Compaction x) w)) = Some ErrCompacted \<Longrightarrow>
      outcome_err (outcome (viaChain d a w ''Compaction'' (Call_Compaction x) resp_physc_trace_err))
        = Some ErrCompacted"
    by (simp add: viaChain_def Let_def case_prod_beta resp_physc_trace_err_def)
  then show ?thesis
    using dispatch_classified [of d a r f w]
    by (simp add: successful_def dispatch_only_Compaction viaChain_classified FormatBool_def)
qed

theorem dispatch_success_classification_witness:
  "r_err (fst (invoke demo_deps (applyV3 demo_ua) (Call_Compaction 0) demo_quiet))
     = Some ErrCompacted \<and>
   dispatch demo_deps demo_ua (noRequest\<lparr>Compaction := Some 0\<rparr>) True demo_quiet =
     \<lparr>outcome = Returned (Some \<lparr>resp = None, err = Some ErrCompacted, physc = None, trace = None\<rparr>),
      ua = demo_ua, world = demo_quiet,
      events = [CallChain (authApplierV3 (quotaApplierV3 applierV3backend)) (Call_Compaction 0),
                Observe ''v3'' ''Compaction'' ''true'', WarnOfExpensiveRequest]\<rparr> \<and>
   events (dispatch demo_deps (fst (newUberApplier demo_deps demo_full))
       (noRequest\<lparr>Put := Some 3\<rparr>) True demo_full) =
     [CallChain (applierV3Capped (authApplierV3 (quotaApplierV3 applierV3backend))) (Call_Put 3),
      Observe ''v3'' ''Put'' ''false'', WarnOfExpensiveRequest, WarnOfFailedRequest] \<and>
   outcome_err (outcome (dispatch demo_deps (fst (newUberApplier demo_deps demo_full))
       (noRequest\<lparr>Put := Some 3\<rparr>) True demo_full)) = Some (Err ''no space'')"
  using dispatch_success_classification
      [of demo_deps demo_ua "noRequest\<lparr>Compaction := Some 0\<rparr>" True demo_quiet 0]
    dispatch_success_classification
      [of demo_deps "fst (newUberApplier demo_deps demo_full)" "noRequest\<lparr>Put := Some 3\<rparr>"
        True demo_full 0]
  by (simp add: demo_defs run_defs)

text \<open>
  C5, as amended. For a request in which no variant is set: when \<^verbatim>\<open>shouldApplyV3\<close> is
  true, \<^verbatim>\<open>dispatch\<close> reaches the default of the second switch and panics, after the
  logger's \<^verbatim>\<open>Panic\<close> and with the deferred function run on the operation
  \<^verbatim>\<open>unknown\<close>, and so does \<^verbatim>\<open>Apply\<close> when the chain's \<^verbatim>\<open>WrapApply\<close>
  hands the request over; when \<^verbatim>\<open>shouldApplyV3\<close> is false, \<^verbatim>\<open>dispatch\<close>
  returns \<^verbatim>\<open>nil\<close> and does not panic.
\<close>

theorem unset_variant_panics_when_gate_open:
  assumes "ClusterVersionSet r = None \<and> ClusterMemberAttrSet r = None \<and>
           DowngradeInfoSet r = None"
    and "noV3Variant r"
  shows "dispatch d a r True w =
       \<lparr>outcome = Panicked, ua = a, world = w,
        events = [LogPanic, Observe (v3Version d) ''unknown'' ''true'', WarnOfExpensiveRequest]\<rparr> \<and>
     (handsOver d a r True w \<longrightarrow> outcome (Apply d a r True w) = Panicked) \<and>
     outcome (dispatch d a r False w) = Returned None"
proof -
  from assms(1) have "controlCall r = None"
    by (simp add: controlCall_None_iff)
  with assms(2) show ?thesis
    by (simp add: dispatch_gate_open dispatchV3_panic dispatch_gate_closed handsOver_def
        Apply_def)
qed

theorem unset_variant_panics_when_gate_open_witness:
  "ClusterVersionSet (noRequest :: nat InternalRaftRequest) = None \<and>
   ClusterMemberAttrSet (noRequest :: nat InternalRaftRequest) = None \<and>
   DowngradeInfoSet (noRequest :: nat InternalRaftRequest) = None \<and>
   noV3Variant (noRequest :: nat InternalRaftRequest) \<and>
   handsOver demo_deps demo_ua noRequest True demo_quiet \<and>
   dispatch demo_deps demo_ua noRequest True demo_quiet =
     \<lparr>outcome = Panicked, ua = demo_ua, world = demo_quiet,
      events = [LogPanic, Observe ''v3'' ''unknown'' ''true'', WarnOfExpensiveRequest]\<rparr> \<and>
   outcome (Apply demo_deps demo_ua noRequest True demo_quiet) = Panicked \<and>
   outcome (dispatch demo_deps demo_ua noRequest False demo_quiet) = Returned None"
proof -
  have h1: "ClusterVersionSet (noRequest :: nat InternalRaftRequest) = None \<and>
      ClusterMemberAttrSet (noRequest :: nat InternalRaftRequest) = None \<and>
      DowngradeInfoSet (noRequest :: nat InternalRaftRequest) = None"
    by (simp add: noRequest_def)
  have h2: "noV3Variant (noRequest :: nat InternalRaftRequest)"
    by (simp add: noV3Variant_def noRequest_def)
  have h3: "handsOver demo_deps demo_ua noRequest True demo_quiet"
    by (simp add: handsOver_def demo_deps_def)
  show ?thesis
    using h1 h2 h3 unset_variant_panics_when_gate_open [OF h1 h2, of demo_deps demo_ua demo_quiet]
    by (simp add: demo_deps_def)
qed

text \<open>
  C5, as stated, fails: with \<^verbatim>\<open>shouldApplyV3\<close> false the gate returns
  \<^verbatim>\<open>nil\<close> before the second switch, so the request with no variant set passes through
  \<^verbatim>\<open>Apply\<close> without a panic.
\<close>

theorem unset_variant_gate_closed_counterexample:
  "ClusterVersionSet (noRequest :: nat InternalRaftRequest) = None \<and>
   ClusterMemberAttrSet (noRequest :: nat InternalRaftRequest) = None \<and>
   DowngradeInfoSet (noRequest :: nat InternalRaftRequest) = None \<and>
   noV3Variant (noRequest :: nat InternalRaftRequest) \<and>
   Apply demo_deps demo_ua noRequest False demo_quiet =
     \<lparr>outcome = Returned None, ua = demo_ua, world = demo_quiet,
      events = [Observe ''v3'' ''unknown'' ''true'', WarnOfExpensiveRequest]\<rparr> \<and>
   outcome (Apply demo_deps demo_ua noRequest False demo_quiet) \<noteq> Panicked \<and>
   LogPanic \<notin> set (events (Apply demo_deps demo_ua noRequest False demo_quiet))"
  by (simp add: Apply_def demo_defs run_defs controlCall_def noV3Variant_def)

text \<open>
  C8. What the code does: a request whose operation name is \<open>n\<close>, applied with
  \<^verbatim>\<open>shouldApplyV3\<close> true (or holding a cluster-control variant), makes
  \<^verbatim>\<open>dispatch\<close> observe the metric exactly once, with the success label of the outcome
  and with the operation \<open>n\<close>, except for \<^verbatim>\<open>AuthStatus\<close>: the case of
  \<^verbatim>\<open>AuthStatus\<close> in the second switch assigns no operation name, and the observation
  carries the operation \<^verbatim>\<open>unknown\<close>.
\<close>

theorem dispatch_metric_label:
  assumes "operationName r = Some n" and "f \<or> controlCall r \<noteq> None"
  shows "filter is_Observe (events (dispatch d a r f w)) =
     [Observe (v3Version d) (if n = ''AuthStatus'' then ''unknown'' else n)
        (FormatBool (successful (outcome (dispatch d a r f w))))]"
proof (cases "controlCall r")
  case None
  with assms(2) have f by simp
  from dispatchV3_label [OF None, of d a w] assms(1)
  have "labelled d (if n = ''AuthStatus'' then ''unknown'' else n) (dispatchV3 d a r w)"
    by simp
  with None \<open>f\<close> show ?thesis
    by (simp add: dispatch_gate_open labelled_def)
next
  case (Some oc)
  then obtain op c where cc: "controlCall r = Some (op, c)" by (cases oc) simp
  with assms(1) have "n = op"
    by (auto simp add: controlCall_def operationName_def split: option.splits)
  moreover from cc have "op \<noteq> ''AuthStatus''"
    by (auto simp add: controlCall_def split: option.splits)
  ultimately show ?thesis
    using cc labelled_viaInternal [of d op a w op c f]
    by (simp add: dispatch_control labelled_def)
qed

theorem dispatch_metric_label_witness:
  "operationName (noRequest\<lparr>AuthStatus := Some (0::nat)\<rparr>) = Some ''AuthStatus'' \<and>
   events (dispatch demo_deps demo_ua (noRequest\<lparr>AuthStatus := Some 0\<rparr>) True demo_quiet) =
     [CallChain (authApplierV3 (quotaApplierV3 applierV3backend)) Call_AuthStatus,
      Observe ''v3'' ''unknown'' ''true'', WarnOfExpensiveRequest] \<and>
   operationName (noRequest\<lparr>AuthEnable := Some (0::nat)\<rparr>) = Some ''AuthEnable'' \<and>
   events (dispatch demo_deps demo_ua (noRequest\<lparr>AuthEnable := Some 0\<rparr>) True demo_quiet) =
     [CallChain (authApplierV3 (quotaApplierV3 applierV3backend)) Call_AuthEnable,
      Observe ''v3'' ''AuthEnable'' ''true'', WarnOfExpensiveRequest]"
proof -
  have h1: "operationName (noRequest\<lparr>AuthStatus := Some (0::nat)\<rparr>) = Some ''AuthStatus''"
    by (simp add: operationName_def noRequest_def)
  have h2: "operationName (noRequest\<lparr>AuthEnable := Some (0::nat)\<rparr>) = Some ''AuthEnable''"
    by (simp add: operationName_def noRequest_def)
  have g1: "True \<or> controlCall (noRequest\<lparr>AuthStatus := Some (0::nat)\<rparr>) \<noteq> None"
    by simp
  have g2: "True \<or> controlCall (noRequest\<lparr>AuthEnable := Some (0::nat)\<rparr>) \<noteq> None"
    by simp
  show ?thesis
    using h1 h2
      dispatch_metric_label [OF h1 g1, of demo_deps demo_ua demo_quiet]
      dispatch_metric_label [OF h2 g2, of demo_deps demo_ua demo_quiet]
    by (simp add: demo_defs run_defs)
qed

end
